theory Spec2Isabelle
  imports Main "HOL-Library.Sublist"
begin

section \<open>Python strings: whitespace, strip and split\<close>

text \<open>
  A Python \<^verbatim>\<open>str\<close> is modelled as a \<^typ>\<open>string\<close> whose characters are the code
  points below 256. \<^verbatim>\<open>str.strip()\<close> without argument removes the characters for which
  \<^verbatim>\<open>str.isspace\<close> holds; below 256 these are the code points 9 to 13, 28 to 32,
  133 and 160.
\<close>

definition isspace :: \<open>char \<Rightarrow> bool\<close> where
  \<open>isspace c = ((of_char c :: nat) \<in> {9, 10, 11, 12, 13, 28, 29, 30, 31, 32, 133, 160})\<close>

definition lstrip :: \<open>string \<Rightarrow> string\<close> where
  \<open>lstrip s = dropWhile isspace s\<close>

definition rstrip :: \<open>string \<Rightarrow> string\<close> where
  \<open>rstrip s = rev (dropWhile isspace (rev s))\<close>

definition strip :: \<open>string \<Rightarrow> string\<close> where
  \<open>strip s = rstrip (lstrip s)\<close>

text \<open>
  \<^verbatim>\<open>s.split('\n')\<close>: the pieces between the line feeds; the empty string gives one
  empty piece, and a final line feed gives a final empty piece. (The split of the rest
  is never empty, so the last case below does not arise.)
\<close>

fun split_nl :: \<open>string \<Rightarrow> string list\<close> where
  \<open>split_nl [] = [[]]\<close>
| \<open>split_nl (c # cs) =
     (if c = CHR 0x0A then [] # split_nl cs
      else (case split_nl cs of
              l # ls \<Rightarrow> (c # l) # ls
            | [] \<Rightarrow> [[c]]))\<close>

text \<open>\<^verbatim>\<open>not line.strip()\<close>: the line is empty once its surrounding whitespace is removed.\<close>

definition blank :: \<open>string \<Rightarrow> bool\<close> where
  \<open>blank line = (strip line = [])\<close>

section \<open>Values of the JSON parser\<close>

text \<open>
  What \<^verbatim>\<open>json.loads\<close> returns: \<^verbatim>\<open>None\<close>, a bool, a number (int or float, kept as its
  literal, which the validators never inspect), a str, a list or a dict. A dict is kept
  as the list of its members in the order of the text; as in Python, the last member
  with a given key is the one that counts.
\<close>

datatype json =
    JNull
  | JBool bool
  | JNum string
  | JStr string
  | JArr \<open>json list\<close>
  | JObj \<open>(string \<times> json) list\<close>

text \<open>
  The exceptions of the validators: \<^verbatim>\<open>TypeError\<close> and \<^verbatim>\<open>KeyError\<close> from the operators
  \<^verbatim>\<open>in\<close> and \<^verbatim>\<open>[]\<close>, whatever \<^verbatim>\<open>json.loads\<close> raises that is not a \<^verbatim>\<open>JSONDecodeError\<close>
  (a \<^verbatim>\<open>RecursionError\<close> on deep nesting, for instance), and what opening a file raises.
\<close>

datatype exn = TypeError | KeyError | LoadsError string | OSError string

text \<open>
  The outcome of \<^verbatim>\<open>json.loads(line)\<close>: a value, a \<^verbatim>\<open>JSONDecodeError\<close> with its
  description \<^verbatim>\<open>str(e)\<close>, or another exception. The parser is a library function, so
  the validators take it as a parameter.
\<close>

datatype loads_result = Value json | JSONDecodeError string | LoadsRaises string

type_synonym parser = \<open>string \<Rightarrow> loads_result\<close>

text \<open>\<^verbatim>\<open>k in s\<close> for two strings: \<^verbatim>\<open>k\<close> occurs in \<^verbatim>\<open>s\<close> as a contiguous piece.\<close>

fun substring :: \<open>string \<Rightarrow> string \<Rightarrow> bool\<close> where
  \<open>substring k [] = (k = [])\<close>
| \<open>substring k (c # s) = (prefix k (c # s) \<or> substring k s)\<close>

text \<open>
  \<^verbatim>\<open>k in data\<close> for a string \<^verbatim>\<open>k\<close>: key membership in a dict, element equality in a
  list, substring test in a str, and a \<^verbatim>\<open>TypeError\<close> for \<^verbatim>\<open>None\<close>, bools and numbers.
\<close>

fun contains :: \<open>string \<Rightarrow> json \<Rightarrow> exn + bool\<close> where
  \<open>contains k (JObj kvs) = Inr (k \<in> set (map fst kvs))\<close>
| \<open>contains k (JArr xs) = Inr (JStr k \<in> set xs)\<close>
| \<open>contains k (JStr s) = Inr (substring k s)\<close>
| \<open>contains k _ = Inl TypeError\<close>

text \<open>
  \<^verbatim>\<open>data[k]\<close> for a string \<^verbatim>\<open>k\<close>: the value of the key in a dict (\<^verbatim>\<open>KeyError\<close> when
  absent), and a \<^verbatim>\<open>TypeError\<close> for everything else (lists and strs want integer
  indices, the rest is not subscriptable).
\<close>

fun getitem :: \<open>json \<Rightarrow> string \<Rightarrow> exn + json\<close> where
  \<open>getitem (JObj kvs) k = (case map_of (rev kvs) k of None \<Rightarrow> Inl KeyError | Some v \<Rightarrow> Inr v)\<close>
| \<open>getitem _ k = Inl TypeError\<close>

text \<open>
  The whitespace of JSON: space, tab, line feed and carriage return. \<^verbatim>\<open>json.loads\<close>
  skips it in front of the value and after it; \<open>json_strip\<close> is a line without it.
\<close>

definition json_ws :: \<open>char \<Rightarrow> bool\<close> where
  \<open>json_ws c = (c \<in> {CHR 0x20, CHR 0x09, CHR 0x0A, CHR 0x0D})\<close>

definition json_strip :: \<open>string \<Rightarrow> string\<close> where
  \<open>json_strip l = rev (dropWhile json_ws (rev (dropWhile json_ws l)))\<close>

section \<open>The validator of main.py\<close>

text \<open>
  The variable \<^verbatim>\<open>format_type\<close> holds \<^verbatim>\<open>None\<close> or one of the strings \<^verbatim>\<open>'chat'\<close> and
  \<^verbatim>\<open>'legacy'\<close>: an optional value of the type
\<close>

datatype fmt = Chat | Legacy

text \<open>
  The messages the validator returns, one constructor for each f-string of the source,
  with the interpolated values as arguments (the texts themselves are Japanese):
  \<^item> \<open>MissingMessages n\<close>: line n, no \<^verbatim>\<open>'messages'\<close> key;
  \<^item> \<open>InvalidMessages n\<close>: line n, \<^verbatim>\<open>'messages'\<close> is invalid (not a list, or empty);
  \<^item> \<open>BadMessage n\<close>: line n, a message is malformed;
  \<^item> \<open>MissingPromptCompletion n\<close>: line n, no \<^verbatim>\<open>'prompt'\<close> or no \<^verbatim>\<open>'completion'\<close>;
  \<^item> \<open>JsonError n e\<close>: line n, JSON format error, followed by the parser's description;
  \<^item> \<open>Summary l c\<close>: the format label and the number of samples.
\<close>

datatype label = ChatLabel | LegacyLabel

datatype detail =
    MissingMessages nat
  | InvalidMessages nat
  | BadMessage nat
  | MissingPromptCompletion nat
  | JsonError nat string
  | Summary label nat

text \<open>
  A piece of the loop body either falls through to what follows it, returns a rejection
  from the function, or raises.
\<close>

datatype ('d, 'a) outcome = Continue 'a | Return_False 'd | Raises exn

text \<open>The detection under \<^verbatim>\<open>if format_type is None\<close>.\<close>

definition detect_format :: \<open>json \<Rightarrow> exn + fmt option\<close> where
  \<open>detect_format data =
     (case contains ''messages'' data of
        Inl e \<Rightarrow> Inl e
      | Inr m \<Rightarrow>
          if m then Inr (Some Chat)
          else (case contains ''prompt'' data of
                  Inl e \<Rightarrow> Inl e
                | Inr p \<Rightarrow>
                    if \<not> p then Inr None
                    else (case contains ''completion'' data of
                            Inl e \<Rightarrow> Inl e
                          | Inr c \<Rightarrow> Inr (if c then Some Legacy else None))))\<close>

text \<open>The loop \<^verbatim>\<open>for msg in messages\<close>.\<close>

fun check_messages :: \<open>nat \<Rightarrow> json list \<Rightarrow> (detail, unit) outcome\<close> where
  \<open>check_messages line_num [] = Continue ()\<close>
| \<open>check_messages line_num (msg # msgs) =
     (case contains ''role'' msg of
        Inl e \<Rightarrow> Raises e
      | Inr r \<Rightarrow>
          if \<not> r then Return_False (BadMessage line_num)
          else (case contains ''content'' msg of
                  Inl e \<Rightarrow> Raises e
                | Inr c \<Rightarrow>
                    if \<not> c then Return_False (BadMessage line_num)
                    else check_messages line_num msgs))\<close>

text \<open>The branch \<^verbatim>\<open>if format_type == 'chat'\<close>.\<close>

definition check_chat :: \<open>nat \<Rightarrow> json \<Rightarrow> (detail, unit) outcome\<close> where
  \<open>check_chat line_num data =
     (case contains ''messages'' data of
        Inl e \<Rightarrow> Raises e
      | Inr m \<Rightarrow>
          if \<not> m then Return_False (MissingMessages line_num)
          else (case getitem data ''messages'' of
                  Inl e \<Rightarrow> Raises e
                | Inr messages \<Rightarrow>
                    (case messages of
                       JArr msgs \<Rightarrow>
                         if length msgs = 0 then Return_False (InvalidMessages line_num)
                         else check_messages line_num msgs
                     | _ \<Rightarrow> Return_False (InvalidMessages line_num))))\<close>

text \<open>The branch \<^verbatim>\<open>elif format_type == 'legacy'\<close>.\<close>

definition check_legacy :: \<open>nat \<Rightarrow> json \<Rightarrow> (detail, unit) outcome\<close> where
  \<open>check_legacy line_num data =
     (case contains ''prompt'' data of
        Inl e \<Rightarrow> Raises e
      | Inr p \<Rightarrow>
          if \<not> p then Return_False (MissingPromptCompletion line_num)
          else (case contains ''completion'' data of
                  Inl e \<Rightarrow> Raises e
                | Inr c \<Rightarrow>
                    if \<not> c then Return_False (MissingPromptCompletion line_num)
                    else Continue ()))\<close>

text \<open>The checks of the format in force; none when it is still \<^verbatim>\<open>None\<close>.\<close>

fun check_record :: \<open>fmt option \<Rightarrow> nat \<Rightarrow> json \<Rightarrow> (detail, unit) outcome\<close> where
  \<open>check_record (Some Chat) line_num data = check_chat line_num data\<close>
| \<open>check_record (Some Legacy) line_num data = check_legacy line_num data\<close>
| \<open>check_record None line_num data = Continue ()\<close>

text \<open>
  The \<^verbatim>\<open>try\<close> block for one non-blank line: parse, detect the format when there is
  none yet, check. It yields the value of \<^verbatim>\<open>format_type\<close> after the line.
\<close>

definition process_line :: \<open>parser \<Rightarrow> fmt option \<Rightarrow> nat \<Rightarrow> string \<Rightarrow> (detail, fmt option) outcome\<close> where
  \<open>process_line loads format_type line_num line =
     (case loads line of
        JSONDecodeError e \<Rightarrow> Return_False (JsonError line_num e)
      | LoadsRaises e \<Rightarrow> Raises (LoadsError e)
      | Value data \<Rightarrow>
          (case (if format_type = None then detect_format data else Inr format_type) of
             Inl e \<Rightarrow> Raises e
           | Inr format_type' \<Rightarrow>
               (case check_record format_type' line_num data of
                  Continue u \<Rightarrow> Continue format_type'
                | Return_False d \<Rightarrow> Return_False d
                | Raises e \<Rightarrow> Raises e)))\<close>

text \<open>
  The loop over \<^verbatim>\<open>enumerate(lines, 1)\<close>, with the two variables \<^verbatim>\<open>format_type\<close> and
  \<^verbatim>\<open>line_count\<close> as its state.
\<close>

fun loop :: \<open>parser \<Rightarrow> fmt option \<Rightarrow> nat \<Rightarrow> (nat \<times> string) list \<Rightarrow> (detail, fmt option \<times> nat) outcome\<close> where
  \<open>loop loads format_type line_count [] = Continue (format_type, line_count)\<close>
| \<open>loop loads format_type line_count ((line_num, line) # rest) =
     (if blank line then loop loads format_type line_count rest
      else (case process_line loads format_type line_num line of
              Continue format_type' \<Rightarrow> loop loads format_type' (line_count + 1) rest
            | Return_False d \<Rightarrow> Return_False d
            | Raises e \<Rightarrow> Raises e))\<close>

text \<open>\<^verbatim>\<open>lines = content.strip().split('\n')\<close>\<close>

definition lines_of :: \<open>string \<Rightarrow> string list\<close> where
  \<open>lines_of content = split_nl (strip content)\<close>

definition format_label :: \<open>fmt option \<Rightarrow> label\<close> where
  \<open>format_label format_type = (if format_type = Some Chat then ChatLabel else LegacyLabel)\<close>

text \<open>
  \<^verbatim>\<open>validate_jsonl(content)\<close> of main.py: the triple it returns, or the exception it
  raises.
\<close>

definition validate_jsonl :: \<open>parser \<Rightarrow> string \<Rightarrow> exn + (bool \<times> detail \<times> nat)\<close> where
  \<open>validate_jsonl loads content =
     (case loop loads None 0 (enumerate 1 (lines_of content)) of
        Continue (format_type, line_count) \<Rightarrow>
          Inr (True, Summary (format_label format_type) line_count, line_count)
      | Return_False d \<Rightarrow> Inr (False, d, 0)
      | Raises e \<Rightarrow> Inl e)\<close>

section \<open>The validator of openai_upload_file.py\<close>

text \<open>
  Its messages, again one constructor for each f-string:
  \<^item> \<open>FileNotFound p\<close>: the file does not exist;
  \<^item> \<open>NoMessagesKey n\<close>: line n, no \<^verbatim>\<open>'messages'\<close> key;
  \<^item> \<open>MessagesNotArray n\<close>: line n, \<^verbatim>\<open>'messages'\<close> has to be an array;
  \<^item> \<open>MessagesEmpty n\<close>: line n, \<^verbatim>\<open>'messages'\<close> is empty;
  \<^item> \<open>MessageLacksKey n\<close>: line n, a message has no \<^verbatim>\<open>'role'\<close> or no \<^verbatim>\<open>'content'\<close>;
  \<^item> \<open>NoPromptOrCompletionKey n\<close>: line n, no \<^verbatim>\<open>'prompt'\<close> or no \<^verbatim>\<open>'completion'\<close> key;
  \<^item> \<open>JsonNotWellFormed n e\<close>: line n, the JSON is not well formed, with the parser's
    description;
  \<^item> \<open>ValidationOk l c\<close>: validation succeeded, with the format label and the number of
    lines;
  \<^item> \<open>ValidationError e\<close>: validation error, with the exception caught.
\<close>

datatype upload_label = ChatFormat | OldFormat

datatype upload_detail =
    FileNotFound string
  | NoMessagesKey nat
  | MessagesNotArray nat
  | MessagesEmpty nat
  | MessageLacksKey nat
  | NoPromptOrCompletionKey nat
  | JsonNotWellFormed nat string
  | ValidationOk upload_label nat
  | ValidationError exn

fun upload_check_messages :: \<open>nat \<Rightarrow> json list \<Rightarrow> (upload_detail, unit) outcome\<close> where
  \<open>upload_check_messages line_num [] = Continue ()\<close>
| \<open>upload_check_messages line_num (msg # msgs) =
     (case contains ''role'' msg of
        Inl e \<Rightarrow> Raises e
      | Inr r \<Rightarrow>
          if \<not> r then Return_False (MessageLacksKey line_num)
          else (case contains ''content'' msg of
                  Inl e \<Rightarrow> Raises e
                | Inr c \<Rightarrow>
                    if \<not> c then Return_False (MessageLacksKey line_num)
                    else upload_check_messages line_num msgs))\<close>

definition upload_check_chat :: \<open>nat \<Rightarrow> json \<Rightarrow> (upload_detail, unit) outcome\<close> where
  \<open>upload_check_chat line_num data =
     (case contains ''messages'' data of
        Inl e \<Rightarrow> Raises e
      | Inr m \<Rightarrow>
          if \<not> m then Return_False (NoMessagesKey line_num)
          else (case getitem data ''messages'' of
                  Inl e \<Rightarrow> Raises e
                | Inr messages \<Rightarrow>
                    (case messages of
                       JArr msgs \<Rightarrow>
                         if length msgs = 0 then Return_False (MessagesEmpty line_num)
                         else upload_check_messages line_num msgs
                     | _ \<Rightarrow> Return_False (MessagesNotArray line_num))))\<close>

definition upload_check_legacy :: \<open>nat \<Rightarrow> json \<Rightarrow> (upload_detail, unit) outcome\<close> where
  \<open>upload_check_legacy line_num data =
     (case contains ''prompt'' data of
        Inl e \<Rightarrow> Raises e
      | Inr p \<Rightarrow>
          if \<not> p then Return_False (NoPromptOrCompletionKey line_num)
          else (case contains ''completion'' data of
                  Inl e \<Rightarrow> Raises e
                | Inr c \<Rightarrow>
                    if \<not> c then Return_False (NoPromptOrCompletionKey line_num)
                    else Continue ()))\<close>

fun upload_check_record :: \<open>fmt option \<Rightarrow> nat \<Rightarrow> json \<Rightarrow> (upload_detail, unit) outcome\<close> where
  \<open>upload_check_record (Some Chat) line_num data = upload_check_chat line_num data\<close>
| \<open>upload_check_record (Some Legacy) line_num data = upload_check_legacy line_num data\<close>
| \<open>upload_check_record None line_num data = Continue ()\<close>

definition upload_process_line ::
  \<open>parser \<Rightarrow> fmt option \<Rightarrow> nat \<Rightarrow> string \<Rightarrow> (upload_detail, fmt option) outcome\<close> where
  \<open>upload_process_line loads format_type line_num line =
     (case loads line of
        JSONDecodeError e \<Rightarrow> Return_False (JsonNotWellFormed line_num e)
      | LoadsRaises e \<Rightarrow> Raises (LoadsError e)
      | Value data \<Rightarrow>
          (case (if format_type = None then detect_format data else Inr format_type) of
             Inl e \<Rightarrow> Raises e
           | Inr format_type' \<Rightarrow>
               (case upload_check_record format_type' line_num data of
                  Continue u \<Rightarrow> Continue format_type'
                | Return_False d \<Rightarrow> Return_False d
                | Raises e \<Rightarrow> Raises e)))\<close>

fun upload_loop ::
  \<open>parser \<Rightarrow> fmt option \<Rightarrow> nat \<Rightarrow> (nat \<times> string) list \<Rightarrow> (upload_detail, fmt option \<times> nat) outcome\<close> where
  \<open>upload_loop loads format_type line_count [] = Continue (format_type, line_count)\<close>
| \<open>upload_loop loads format_type line_count ((line_num, line) # rest) =
     (if blank line then upload_loop loads format_type line_count rest
      else (case upload_process_line loads format_type line_num line of
              Continue format_type' \<Rightarrow> upload_loop loads format_type' (line_count + 1) rest
            | Return_False d \<Rightarrow> Return_False d
            | Raises e \<Rightarrow> Raises e))\<close>

text \<open>
  The file system as the validator sees it: a path that does not exist, a path that
  exists but cannot be opened (\<^verbatim>\<open>open\<close> raises, with the exception's text), or a text
  file, given as the lines that iterating over it yields, each with its line feed but
  possibly the last. A file whose decoding fails in the middle is not modelled.
\<close>

datatype node = Unreadable string | TextFile \<open>string list\<close>

type_synonym files = \<open>string \<rightharpoonup> node\<close>

definition upload_format_label :: \<open>fmt option \<Rightarrow> upload_label\<close> where
  \<open>upload_format_label format_type = (if format_type = Some Chat then ChatFormat else OldFormat)\<close>

text \<open>
  How Python reads a text file that holds a given text (\<^verbatim>\<open>open(file_path, 'r')\<close>, then
  \<^verbatim>\<open>for line in f\<close>): a carriage return, alone or followed by a line feed, is read as
  a line feed; then each line ends after its line feed, which it keeps, and the text
  after the last line feed, when there is some, is the last line.
\<close>

fun universal_newlines :: \<open>string \<Rightarrow> string\<close> where
  \<open>universal_newlines [] = []\<close>
| \<open>universal_newlines [c] = [if c = CHR 0x0D then CHR 0x0A else c]\<close>
| \<open>universal_newlines (c # d # s) =
     (if c = CHR 0x0D then
        (if d = CHR 0x0A then CHR 0x0A # universal_newlines s
         else CHR 0x0A # universal_newlines (d # s))
      else c # universal_newlines (d # s))\<close>

fun keepends :: \<open>string \<Rightarrow> string list\<close> where
  \<open>keepends [] = []\<close>
| \<open>keepends (c # cs) =
     (if c = CHR 0x0A then [c] # keepends cs
      else (case keepends cs of
              [] \<Rightarrow> [[c]]
            | l # ls \<Rightarrow> (c # l) # ls))\<close>

definition readlines :: \<open>string \<Rightarrow> string list\<close> where
  \<open>readlines text = keepends (universal_newlines text)\<close>

text \<open>
  \<^verbatim>\<open>validate_jsonl(file_path)\<close> of openai_upload_file.py. Its outer
  \<^verbatim>\<open>except Exception\<close> turns every exception into a rejection.
\<close>

definition upload_validate_jsonl :: \<open>parser \<Rightarrow> files \<Rightarrow> string \<Rightarrow> bool \<times> upload_detail\<close> where
  \<open>upload_validate_jsonl loads fs file_path =
     (case fs file_path of
        None \<Rightarrow> (False, FileNotFound file_path)
      | Some (Unreadable e) \<Rightarrow> (False, ValidationError (OSError e))
      | Some (TextFile ls) \<Rightarrow>
          (case upload_loop loads None 0 (enumerate 1 ls) of
             Continue (format_type, line_count) \<Rightarrow>
               (True, ValidationOk (upload_format_label format_type) line_count)
           | Return_False d \<Rightarrow> (False, d)
           | Raises e \<Rightarrow> (False, ValidationError e)))\<close>

section \<open>Sample lines\<close>

text \<open>
  The results of \<^verbatim>\<open>json.loads\<close> on the lines used in the examples below. As
  \<^verbatim>\<open>json.loads\<close> skips the JSON whitespace around the value, a line that parses is
  looked up without it. The description of a line that does not parse gives a
  position in the line, which the JSON whitespace after the line leaves as it is: such
  a line is looked up without that whitespace, and with nothing in front of it. Any
  other line is answered by an exception that names it as unlisted, so that no example
  can rest on a line whose result is not written here.
\<close>

definition chat_record :: \<open>string \<Rightarrow> string \<Rightarrow> json\<close> where
  \<open>chat_record r c = JObj [(''messages'', JArr [JObj [(''role'', JStr r), (''content'', JStr c)]])]\<close>

definition legacy_record :: \<open>json\<close> where
  \<open>legacy_record = JObj [(''prompt'', JStr ''Q''), (''completion'', JStr ''A'')]\<close>

definition expecting_value :: \<open>string\<close> where
  \<open>expecting_value = ''Expecting value: line 1 column 1 (char 0)''\<close>

definition sample_lines :: \<open>(string \<times> loads_result) list\<close> where
  \<open>sample_lines =
    [(''{"messages":[{"role":"user","content":"hi"}]}'', Value (chat_record ''user'' ''hi'')),
     (''{"messages":[{"role":"assistant","content":"hello"}]}'',
        Value (chat_record ''assistant'' ''hello'')),
     (''{"prompt":"Q","completion":"A"}'', Value legacy_record),
     (CHR 0x0C # ''{"prompt":"Q","completion":"A"}'', JSONDecodeError expecting_value),
     (''{"prompt":"Q","completion":"A"}'' @ [CHR 0x0C],
        JSONDecodeError ''Extra data: line 1 column 32 (char 31)''),
     (''{"prompt":"Q","completion":"A"}'' @ CHR 0x0D # ''{"prompt":"Q","completion":"A"}'',
        JSONDecodeError ''Extra data: line 1 column 33 (char 32)''),
     (''{"prompt":"Q"}'', Value (JObj [(''prompt'', JStr ''Q'')])),
     (''{"messages":[]}'', Value (JObj [(''messages'', JArr [])])),
     (''{"messages":[1]}'', Value (JObj [(''messages'', JArr [JNum ''1''])])),
     (''{"messages":["role content"]}'', Value (JObj [(''messages'', JArr [JStr ''role content''])])),
     (''{}'', Value (JObj [])),
     (''1'', Value (JNum ''1'')),
     (''not valid json'', JSONDecodeError expecting_value)]\<close>

definition sample_loads :: \<open>parser\<close> where
  \<open>sample_loads line =
     (case map_of sample_lines (json_strip line) of
        None \<Rightarrow> LoadsRaises ''unlisted line''
      | Some r \<Rightarrow>
          (case r of
             Value v \<Rightarrow> r
           | _ \<Rightarrow> if dropWhile json_ws line = line then r else LoadsRaises ''unlisted line''))\<close>

section \<open>Notions used to state the properties\<close>

text \<open>A numbered line that the loop does not skip.\<close>

definition nonblank :: \<open>nat \<times> string \<Rightarrow> bool\<close> where
  \<open>nonblank nl = (\<not> blank (snd nl))\<close>

text \<open>
  The structural rules of the two formats, as the specification words them. A chat
  record is a mapping whose \<^verbatim>\<open>messages\<close> is a non-empty sequence of mappings that each
  have \<^verbatim>\<open>role\<close> and \<^verbatim>\<open>content\<close>; a legacy record is a mapping that has \<^verbatim>\<open>prompt\<close> and
  \<^verbatim>\<open>completion\<close>.
\<close>

fun is_record :: \<open>json \<Rightarrow> bool\<close> where
  \<open>is_record (JObj kvs) = True\<close>
| \<open>is_record _ = False\<close>




text \<open>
  The detection of the format as the specification words it (4.1, step 4), by the
  fields of the record: chat if it contains a \<^verbatim>\<open>messages\<close> field, else legacy if it
  contains both a \<^verbatim>\<open>prompt\<close> and a \<^verbatim>\<open>completion\<close> field, else undetermined. The format
  of an input is detected on its first record.
\<close>

fun has_field :: \<open>string \<Rightarrow> json \<Rightarrow> bool\<close> where
  \<open>has_field k (JObj kvs) = (k \<in> set (map fst kvs))\<close>
| \<open>has_field k _ = False\<close>

definition spec_detect :: \<open>json \<Rightarrow> fmt option\<close> where
  \<open>spec_detect r =
     (if has_field ''messages'' r then Some Chat
      else if has_field ''prompt'' r \<and> has_field ''completion'' r then Some Legacy
      else None)\<close>









section \<open>Lines and whitespace\<close>


lemma strip_Nil_iff: \<open>strip s = [] \<longleftrightarrow> (\<forall>c \<in> set s. isspace c)\<close>
proof -
  have \<open>strip s = [] \<longleftrightarrow> (\<forall>c \<in> set (dropWhile isspace s). isspace c)\<close>
    by (simp add: strip_def rstrip_def lstrip_def)
  also have \<open>\<dots> \<longleftrightarrow> dropWhile isspace s = []\<close>
    by (metis hd_dropWhile list.set_sel(1) empty_iff list.set(1))
  also have \<open>\<dots> \<longleftrightarrow> (\<forall>c \<in> set s. isspace c)\<close>
    by simp
  finally show ?thesis .
qed

lemma blank_iff: \<open>blank l \<longleftrightarrow> (\<forall>c \<in> set l. isspace c)\<close>
  by (simp add: blank_def strip_Nil_iff)

lemma isspace_nl: \<open>isspace (CHR 0x0A)\<close>
  by (simp add: isspace_def)

lemma set_split_nl: \<open>set s \<subseteq> \<Union> (set ` set (split_nl s)) \<union> {CHR 0x0A}\<close>
proof (induction s)
  case Nil
  show ?case by simp
next
  case (Cons c s)
  then show ?case
    by (cases \<open>split_nl s\<close>) auto
qed

lemma all_blank_all_space:
  assumes \<open>\<forall>l \<in> set (split_nl s). blank l\<close>
  shows \<open>\<forall>c \<in> set s. isspace c\<close>
proof
  fix c assume \<open>c \<in> set s\<close>
  then have \<open>c \<in> \<Union> (set ` set (split_nl s)) \<or> c = CHR 0x0A\<close>
    using set_split_nl [of s] by auto
  then show \<open>isspace c\<close>
    using assms isspace_nl by (auto simp: blank_iff)
qed

section \<open>Blank lines, and a character more at the end of a text\<close>


lemma blank_Nil: \<open>blank []\<close>
  by (simp add: blank_iff)


section \<open>The lines of the stripped text within the supplied text\<close>








section \<open>The loop\<close>

lemma loop_append:
  \<open>loop loads ft c (xs @ ys) =
     (case loop loads ft c xs of
        Continue (ft', c') \<Rightarrow> loop loads ft' c' ys
      | Return_False d \<Rightarrow> Return_False d
      | Raises e \<Rightarrow> Raises e)\<close>
  by (induction loads ft c xs rule: loop.induct) (simp_all split: outcome.split)

lemma loop_skip_unrecognized:
  assumes \<open>\<forall>nl \<in> set pre. \<not> blank (snd nl) \<longrightarrow>
             (\<exists>data. loads (snd nl) = Value data \<and> detect_format data = Inr None)\<close>
  shows \<open>loop loads None c (pre @ rest) = loop loads None (c + length (filter nonblank pre)) rest\<close>
  using assms
proof (induction pre arbitrary: c)
  case Nil
  show ?case by simp
next
  case (Cons nl pre)
  obtain n l where nl: \<open>nl = (n, l)\<close> by (cases nl)
  show ?case
  proof (cases \<open>blank l\<close>)
    case True
    with Cons nl show ?thesis by (simp add: nonblank_def)
  next
    case False
    with Cons.prems nl obtain data where d: \<open>loads l = Value data\<close> \<open>detect_format data = Inr None\<close>
      by auto
    then have \<open>process_line loads None n l = Continue None\<close>
      by (simp add: process_line_def)
    with Cons False nl show ?thesis by (simp add: nonblank_def)
  qed
qed

lemma loop_locked: \<open>loop loads (Some f) c ls = Continue (ft', c') \<Longrightarrow> ft' = Some f\<close>
proof (induction ls arbitrary: c)
  case Nil
  then show ?case by simp
next
  case (Cons nl ls)
  obtain n l where nl: \<open>nl = (n, l)\<close> by (cases nl)
  show ?case
  proof (cases \<open>blank l\<close>)
    case True
    with Cons nl show ?thesis by simp
  next
    case False
    with Cons.prems nl obtain ft1 where
      p: \<open>process_line loads (Some f) n l = Continue ft1\<close> and
      r: \<open>loop loads ft1 (c + 1) ls = Continue (ft', c')\<close>
      by (auto split: outcome.splits)
    from p have \<open>ft1 = Some f\<close>
      by (auto simp: process_line_def split: loads_result.splits outcome.splits)
    with r Cons.IH show ?thesis by simp
  qed
qed

lemma process_line_locked:
  \<open>loads line = Value data \<Longrightarrow>
   process_line loads (Some f) n line =
     (case check_record (Some f) n data of
        Continue u \<Rightarrow> Continue (Some f)
      | Return_False d \<Rightarrow> Return_False d
      | Raises e \<Rightarrow> Raises e)\<close>
  by (simp add: process_line_def)


section \<open>Records that satisfy the rules\<close>






lemma detect_format_record: \<open>is_record r \<Longrightarrow> detect_format r = Inr (spec_detect r)\<close>
  by (cases r) (auto simp: detect_format_def spec_detect_def)






section \<open>The records of a text, as each validator finds them\<close>



























section \<open>The two validators side by side\<close>











section \<open>The non-blank lines of the stripped text, next to those of the text\<close>




















section \<open>Detection of the format (C1)\<close>

text \<open>
  C1. The claim: when the first non-blank, successfully parsed line contains neither
  \<^verbatim>\<open>messages\<close> nor both \<^verbatim>\<open>prompt\<close> and \<^verbatim>\<open>completion\<close>, the format stays undetermined
  for the whole pass and no format-specific check is applied to that record or to any
  later one. The code repeats the detection on every record while \<^verbatim>\<open>format_type\<close> is
  \<^verbatim>\<open>None\<close>: after the record \<^verbatim>\<open>{}\<close>, which has none of the fields, the record
  \<^verbatim>\<open>{"messages":[]}\<close> on line 2 locks the chat format and is rejected by the chat check.
\<close>

theorem undetermined_for_whole_pass_counterexample:
  \<open>sample_loads ''{}'' = Value (JObj [])
   \<and> spec_detect (JObj []) = None
   \<and> validate_jsonl sample_loads ''{}\<newline>{"messages":[]}'' = Inr (False, InvalidMessages 2, 0)\<close>
  by code_simp

text \<open>
  C1, as amended. As long as every non-blank line read so far parsed to a record that
  contains neither a \<^verbatim>\<open>messages\<close> field nor both a \<^verbatim>\<open>prompt\<close> and a \<^verbatim>\<open>completion\<close> field,
  the format is still undetermined and no format-specific check has been applied:
  these records are counted and the pass goes on with the remaining lines as from the
  start. The detection is tried again on each of them: the first record that contains
  a \<^verbatim>\<open>messages\<close> field, or else both a \<^verbatim>\<open>prompt\<close> and a \<^verbatim>\<open>completion\<close> field, sets the
  format to chat, or else to legacy, and is checked by the rules of that format, as
  are the records after it.
\<close>

theorem undetermined_while_no_recognizable_record:
  assumes \<open>\<forall>nl \<in> set pre. \<not> blank (snd nl) \<longrightarrow>
             (\<exists>r. loads (snd nl) = Value r \<and> is_record r \<and> spec_detect r = None)\<close>
  shows \<open>loop loads None c (pre @ rest) = loop loads None (c + length (filter nonblank pre)) rest
         \<and> (\<not> blank line \<and> loads line = Value r \<and> is_record r \<and> spec_detect r = Some f \<longrightarrow>
              loop loads None c (pre @ (n, line) # rest) =
                (case check_record (Some f) n r of
                   Continue u \<Rightarrow> loop loads (Some f) (c + length (filter nonblank pre) + 1) rest
                 | Return_False d \<Rightarrow> Return_False d
                 | Raises e \<Rightarrow> Raises e))\<close>
proof -
  have h: \<open>\<forall>nl \<in> set pre. \<not> blank (snd nl) \<longrightarrow>
             (\<exists>data. loads (snd nl) = Value data \<and> detect_format data = Inr None)\<close>
    using assms by (auto simp: detect_format_record)
  have skip: \<open>loop loads None c (pre @ ys) = loop loads None (c + length (filter nonblank pre)) ys\<close>
    for ys
    using h by (rule loop_skip_unrecognized)
  have \<open>loop loads None c (pre @ (n, line) # rest) =
                (case check_record (Some f) n r of
                   Continue u \<Rightarrow> loop loads (Some f) (c + length (filter nonblank pre) + 1) rest
                 | Return_False d \<Rightarrow> Return_False d
                 | Raises e \<Rightarrow> Raises e)\<close>
    if \<open>\<not> blank line \<and> loads line = Value r \<and> is_record r \<and> spec_detect r = Some f\<close>
  proof -
    from that have \<open>detect_format r = Inr (Some f)\<close>
      by (simp add: detect_format_record)
    with that show ?thesis
      by (simp add: skip process_line_def split: outcome.split)
  qed
  with skip show ?thesis by blast
qed

theorem undetermined_while_no_recognizable_record_witness:
  \<open>loop sample_loads None 0 ([(1, ''{"prompt":"Q"}''), (2, [])] @ [(3, ''{}'')])
     = Continue (None, 2)
   \<and> loop sample_loads None 0
       ([(1, ''{"prompt":"Q"}''), (2, [])]
        @ (3, ''{"messages":[{"role":"user","content":"hi"}]}'') # [(4, ''{"messages":[]}'')])
     = Return_False (InvalidMessages 4)\<close>
proof -
  let ?pre = \<open>[(1::nat, ''{"prompt":"Q"}''), (2, [])]\<close>
  let ?line = \<open>''{"messages":[{"role":"user","content":"hi"}]}''\<close>
  have h: \<open>\<forall>nl \<in> set ?pre. \<not> blank (snd nl) \<longrightarrow>
             (\<exists>r. sample_loads (snd nl) = Value r \<and> is_record r \<and> spec_detect r = None)\<close>
    by (simp add: sample_loads_def sample_lines_def json_strip_def json_ws_def spec_detect_def
          blank_Nil)
  have p: \<open>\<not> blank ?line \<and> sample_loads ?line = Value (chat_record ''user'' ''hi'')
             \<and> is_record (chat_record ''user'' ''hi'')
             \<and> spec_detect (chat_record ''user'' ''hi'') = Some Chat\<close>
    by code_simp
  have e1: \<open>loop sample_loads None (0 + length (filter nonblank ?pre)) [(3, ''{}'')]
              = Continue (None, 2)\<close>
    by code_simp
  have e2: \<open>(case check_record (Some Chat) 3 (chat_record ''user'' ''hi'') of
                Continue u \<Rightarrow>
                  loop sample_loads (Some Chat) (0 + length (filter nonblank ?pre) + 1)
                    [(4, ''{"messages":[]}'')]
              | Return_False d \<Rightarrow> Return_False d
              | Raises e \<Rightarrow> Raises e)
              = Return_False (InvalidMessages 4)\<close>
    by code_simp
  note t = undetermined_while_no_recognizable_record
    [where pre = ?pre and loads = sample_loads and c = 0 and line = ?line
       and r = \<open>chat_record ''user'' ''hi''\<close> and f = Chat and n = 3, OF h]
  from t [of \<open>[(3, ''{}'')]\<close>]
  have \<open>loop sample_loads None 0 (?pre @ [(3, ''{}'')])
          = loop sample_loads None (0 + length (filter nonblank ?pre)) [(3, ''{}'')]\<close>
    by (rule conjunct1)
  then have a: \<open>loop sample_loads None 0 (?pre @ [(3, ''{}'')]) = Continue (None, 2)\<close>
    by (rule trans [OF _ e1])
  from t [of \<open>[(4, ''{"messages":[]}'')]\<close>]
  have \<open>\<not> blank ?line \<and> sample_loads ?line = Value (chat_record ''user'' ''hi'')
          \<and> is_record (chat_record ''user'' ''hi'')
          \<and> spec_detect (chat_record ''user'' ''hi'') = Some Chat \<longrightarrow>
        loop sample_loads None 0 (?pre @ (3, ?line) # [(4, ''{"messages":[]}'')]) =
          (case check_record (Some Chat) 3 (chat_record ''user'' ''hi'') of
             Continue u \<Rightarrow>
               loop sample_loads (Some Chat) (0 + length (filter nonblank ?pre) + 1)
                 [(4, ''{"messages":[]}'')]
           | Return_False d \<Rightarrow> Return_False d
           | Raises e \<Rightarrow> Raises e)\<close>
    by (rule conjunct2)
  then have \<open>loop sample_loads None 0 (?pre @ (3, ?line) # [(4, ''{"messages":[]}'')]) =
          (case check_record (Some Chat) 3 (chat_record ''user'' ''hi'') of
             Continue u \<Rightarrow>
               loop sample_loads (Some Chat) (0 + length (filter nonblank ?pre) + 1)
                 [(4, ''{"messages":[]}'')]
           | Return_False d \<Rightarrow> Return_False d
           | Raises e \<Rightarrow> Raises e)\<close>
    using p by (rule mp)
  then have b: \<open>loop sample_loads None 0 (?pre @ (3, ?line) # [(4, ''{"messages":[]}'')])
                 = Return_False (InvalidMessages 4)\<close>
    by (rule trans [OF _ e2])
  from a b show ?thesis
    by (rule conjI)
qed

section \<open>A line that does not parse (C2)\<close>




section \<open>Exceptions that escape (C3)\<close>

text \<open>
  C3. The claim: \<^verbatim>\<open>validate_jsonl\<close> of main.py reports every failure as a returned
  rejection and never lets an exception escape; in particular a chat record whose
  \<^verbatim>\<open>messages\<close> holds an element that is not a mapping with \<^verbatim>\<open>role\<close> and \<^verbatim>\<open>content\<close> is
  rejected with its line number. The code at the one-line input
  \<^verbatim>\<open>{"messages":[1]}\<close>: the test \<^verbatim>\<open>'role' not in msg\<close> on the number raises a
  \<^verbatim>\<open>TypeError\<close>, which the only handler (for \<^verbatim>\<open>JSONDecodeError\<close>) does not catch, so
  the call raises instead of returning \<^verbatim>\<open>(False, ..., 0)\<close>. And at the one-line input
  \<^verbatim>\<open>{"messages":["role content"]}\<close>, whose message is a string: the two tests are
  substring tests, both succeed, and the record is accepted.
\<close>

theorem non_mapping_message_not_rejected:
  \<open>validate_jsonl sample_loads ''{"messages":[1]}'' = Inl TypeError
   \<and> validate_jsonl sample_loads ''{"messages":["role content"]}''
     = Inr (True, Summary ChatLabel 1, 1)\<close>
  by code_simp

section \<open>Valid input (C4)\<close>




section \<open>The lock on the format (C5)\<close>

text \<open>
  C5. Once \<^verbatim>\<open>format_type\<close> is \<^verbatim>\<open>'chat'\<close> or \<^verbatim>\<open>'legacy'\<close> it keeps that value to the end of
  the pass: the lines after the point where it was set are processed under it, a pass
  that completes ends with it, and every later record is checked by the rules of that
  format alone, whatever the record looks like (so that it may be rejected by them).
\<close>

theorem locked_format_never_changes:
  \<open>(loop loads ft0 c0 pre = Continue (Some f, c) \<longrightarrow>
      loop loads ft0 c0 (pre @ rest) = loop loads (Some f) c rest)
   \<and> (loop loads (Some f) c rest = Continue (ft', c') \<longrightarrow> ft' = Some f)
   \<and> (loads line = Value data \<longrightarrow>
        process_line loads (Some f) n line =
          (case check_record (Some f) n data of
             Continue u \<Rightarrow> Continue (Some f)
           | Return_False d \<Rightarrow> Return_False d
           | Raises e \<Rightarrow> Raises e))\<close>
  by (simp add: loop_append loop_locked process_line_locked)

theorem locked_format_never_changes_witness:
  \<open>loop sample_loads None 0
      ([(1, ''{"messages":[{"role":"user","content":"hi"}]}'')]
       @ [(2, ''{"prompt":"Q","completion":"A"}'')])
     = Return_False (MissingMessages 2)
   \<and> process_line sample_loads (Some Chat) 2 ''{"prompt":"Q","completion":"A"}''
     = Return_False (MissingMessages 2)\<close>
proof -
  have p: \<open>loop sample_loads None 0 [(1, ''{"messages":[{"role":"user","content":"hi"}]}'')]
            = Continue (Some Chat, 1)\<close>
    by code_simp
  have v: \<open>sample_loads ''{"prompt":"Q","completion":"A"}''
            = Value (JObj [(''prompt'', JStr ''Q''), (''completion'', JStr ''A'')])\<close>
    by code_simp
  have r: \<open>loop sample_loads (Some Chat) 1 [(2, ''{"prompt":"Q","completion":"A"}'')]
            = Return_False (MissingMessages 2)\<close>
    by code_simp
  have k: \<open>check_record (Some Chat) 2 (JObj [(''prompt'', JStr ''Q''), (''completion'', JStr ''A'')])
            = Return_False (MissingMessages 2)\<close>
    by code_simp
  note t = locked_format_never_changes
    [of sample_loads None 0 \<open>[(1, ''{"messages":[{"role":"user","content":"hi"}]}'')]\<close>
        Chat 1 \<open>[(2, ''{"prompt":"Q","completion":"A"}'')]\<close> \<open>Some Chat\<close> 1
        \<open>''{"prompt":"Q","completion":"A"}''\<close>
        \<open>JObj [(''prompt'', JStr ''Q''), (''completion'', JStr ''A'')]\<close> 2]
  from t p r have \<open>loop sample_loads None 0
      ([(1, ''{"messages":[{"role":"user","content":"hi"}]}'')]
       @ [(2, ''{"prompt":"Q","completion":"A"}'')])
     = Return_False (MissingMessages 2)\<close>
    by (simp only:)
  moreover from t v k have \<open>process_line sample_loads (Some Chat) 2 ''{"prompt":"Q","completion":"A"}''
     = Return_False (MissingMessages 2)\<close>
    by (simp only: outcome.case)
  ultimately show ?thesis
    by (rule conjI)
qed

section \<open>Blank lines (C6)\<close>

text \<open>
  C6. The claim: lines that are empty once their surrounding whitespace is removed do
  not count as records, do not influence the detection of the format, and are never
  the line that a reported error refers to. The code skips such lines, but it numbers
  the lines of \<^verbatim>\<open>content.strip()\<close> and not those of the text. At the four-line input
  below, whose first two lines are empty, the line that does not parse is line 4 and
  the message names line 2, which is an empty line of the input. The validator of
  openai_upload_file.py, which numbers the lines of the file, names line 4.
\<close>

theorem rejection_names_blank_line:
  \<open>split_nl ''\<newline>\<newline>{}\<newline>not valid json'' = [[], [], ''{}'', ''not valid json'']
   \<and> validate_jsonl sample_loads ''\<newline>\<newline>{}\<newline>not valid json''
     = Inr (False, JsonError 2 expecting_value, 0)
   \<and> blank (split_nl ''\<newline>\<newline>{}\<newline>not valid json'' ! (2 - 1))
   \<and> upload_validate_jsonl sample_loads
       [''data.jsonl'' \<mapsto> TextFile (readlines ''\<newline>\<newline>{}\<newline>not valid json'')]
       ''data.jsonl''
     = (False, JsonNotWellFormed 4 expecting_value)\<close>
  by code_simp

section \<open>Input without records (C7)\<close>

text \<open>
  C7. For every input with no non-blank line, \<^verbatim>\<open>validate_jsonl\<close> of main.py returns
  \<^verbatim>\<open>ok = True\<close>, a record count of 0 and a message carrying the fallback (legacy)
  format label, although the loop ends with no format detected.
\<close>

theorem no_records_accepted_with_legacy_label:
  assumes \<open>\<forall>l \<in> set (split_nl content). blank l\<close>
  shows \<open>validate_jsonl loads content = Inr (True, Summary LegacyLabel 0, 0)
         \<and> loop loads None 0 (enumerate 1 (lines_of content)) = Continue (None, 0)\<close>
proof -
  have \<open>strip content = []\<close>
    using all_blank_all_space [OF assms] by (simp add: strip_Nil_iff)
  then have \<open>lines_of content = [[]]\<close>
    by (simp add: lines_of_def)
  moreover have \<open>blank []\<close>
    by (simp add: blank_iff)
  ultimately show ?thesis
    by (simp add: validate_jsonl_def format_label_def)
qed

theorem no_records_accepted_with_legacy_label_witness:
  \<open>validate_jsonl sample_loads '' \<newline>\<newline>  '' = Inr (True, Summary LegacyLabel 0, 0)
   \<and> loop sample_loads None 0 (enumerate 1 (lines_of '' \<newline>\<newline>  '')) = Continue (None, 0)\<close>
proof -
  have h: \<open>\<forall>l \<in> set (split_nl '' \<newline>\<newline>  ''). blank l\<close>
    by (simp add: blank_iff isspace_def)
  show ?thesis
    using no_records_accepted_with_legacy_label [OF h, of sample_loads] by simp
qed

section \<open>Agreement of the two validators (C8)\<close>




section \<open>The count of a rejection (C9)\<close>

text \<open>
  C9. For every input on which \<^verbatim>\<open>validate_jsonl\<close> of main.py returns \<^verbatim>\<open>ok = False\<close>,
  the record count of the returned triple is 0, however many valid records came
  before the offending line.
\<close>

theorem rejection_has_count_zero:
  \<open>validate_jsonl loads content = Inr (ok, d, n) \<Longrightarrow> \<not> ok \<Longrightarrow> n = 0\<close>
  by (auto simp: validate_jsonl_def split: outcome.splits)

theorem rejection_has_count_zero_witness:
  \<open>validate_jsonl sample_loads
      ''{"messages":[{"role":"user","content":"hi"}]}\<newline>not valid json''
     = Inr (False, JsonError 2 expecting_value, 0)\<close>
proof -
  have h: \<open>validate_jsonl sample_loads
      ''{"messages":[{"role":"user","content":"hi"}]}\<newline>not valid json''
     = Inr (False, JsonError 2 expecting_value, 0)\<close>
    by code_simp
  from rejection_has_count_zero [OF h] h show ?thesis
    by simp
qed

end
